theory Spec2Isabelle
  imports Main "HOL-Library.Word" "HOL-Library.Sublist"
begin

section \<open>Values shared by the package\<close>

type_synonym byte = "8 word"

text \<open>
  A Go \<^verbatim>\<open>error\<close> value. \<open>New s\<close> is \<^verbatim>\<open>errors.New(s)\<close> (and an \<^verbatim>\<open>fmt.Errorf\<close> without
  \<^verbatim>\<open>%w\<close>, whose message is \<open>s\<close>); \<open>Errorf p e\<close> is \<^verbatim>\<open>fmt.Errorf(p + "%w", e)\<close>, the error
  \<open>e\<close> wrapped behind the prefix \<open>p\<close>; \<open>Lib s\<close> is an error made by the standard library
  (os, encoding/pem, crypto/x509), known here only by its message.
\<close>

datatype error = New string | Errorf string error | Lib string

fun Error :: "error \<Rightarrow> string" where
  "Error (New s) = s"
| "Error (Errorf p e) = p @ Error e"
| "Error (Lib s) = s"

text \<open>
  The outcome of a call that returns \<^verbatim>\<open>(value, error)\<close> and may panic: the value with a nil
  error, a non-nil error, or a run-time panic.
\<close>

datatype 'a result = Return 'a | Fail error | Panic string

text \<open>The decimal form \<^verbatim>\<open>%d\<close> prints for a slice index.\<close>

definition digit :: "nat \<Rightarrow> char" where
  "digit d = ''0123456789'' ! d"

function itoa :: "nat \<Rightarrow> string" where
  "itoa n = (if n < 10 then [digit n] else itoa (n div 10) @ [digit (n mod 10)])"
  by pat_completeness auto
termination
  by (relation "measure id") auto

declare itoa.simps [simp del]

section \<open>crypto/x509 and crypto/tls as the package sees them\<close>

text \<open>
  The fields of \<^verbatim>\<open>x509.Certificate\<close> the package reads. \<open>KeyUsage\<close> and the members of
  \<open>ExtKeyUsage\<close> are Go \<^verbatim>\<open>int\<close>s that are only compared. \<open>PublicKey\<close> is the subject's key and
  \<open>SignedBy\<close> stands for the signature: the public key under which it verifies. A
  \<^verbatim>\<open>*x509.Certificate\<close> is taken to be non-nil.
\<close>

record x509_Certificate =
  Raw :: "byte list"
  PublicKey :: "byte list"
  SignedBy :: "byte list"
  IsCA :: bool
  KeyUsage :: int
  ExtKeyUsage :: "int list"
  BasicConstraintsValid :: bool

definition KeyUsageDigitalSignature :: int where "KeyUsageDigitalSignature = 1"
definition KeyUsageCertSign :: int where "KeyUsageCertSign = 32"

definition ExtKeyUsageAny :: int where "ExtKeyUsageAny = 0"
definition ExtKeyUsageServerAuth :: int where "ExtKeyUsageServerAuth = 1"
definition ExtKeyUsageClientAuth :: int where "ExtKeyUsageClientAuth = 2"
definition ExtKeyUsageCodeSigning :: int where "ExtKeyUsageCodeSigning = 3"

text \<open>
  \<^verbatim>\<open>x509.CertPool\<close>: the certificates in the order they were added; \<^verbatim>\<open>AddCert\<close> skips a
  certificate whose raw bytes the pool already holds.
\<close>

type_synonym CertPool = "x509_Certificate list"

definition NewCertPool :: CertPool where
  "NewCertPool = []"

definition AddCert :: "CertPool \<Rightarrow> x509_Certificate \<Rightarrow> CertPool" where
  "AddCert pool c = (if list_ex (\<lambda>d. Raw d = Raw c) pool then pool else pool @ [c])"

text \<open>\<^verbatim>\<open>x509.VerifyOptions\<close>; \<open>None\<close> is a pool left nil.\<close>

record VerifyOptions =
  Intermediates :: "CertPool option"
  Roots :: "CertPool option"

text \<open>A \<^verbatim>\<open>crypto.Signer\<close>, known by the public key it signs for.\<close>

datatype Signer = Signer (Public: "byte list")

text \<open>
  What \<^verbatim>\<open>x509.ParsePKCS8PrivateKey\<close> returns as \<^verbatim>\<open>any\<close>: a key that implements
  \<^verbatim>\<open>crypto.Signer\<close> (RSA, ECDSA, Ed25519) or one that does not (ECDH).
\<close>

datatype anykey = SignerKey Signer | OtherKey

text \<open>\<^verbatim>\<open>pem.Block\<close>.\<close>

record Block =
  Type :: string
  Bytes :: "byte list"

text \<open>
  The functions of the standard library the package calls, over file contents of type \<open>'f\<close>:
  \<^verbatim>\<open>os.ReadFile\<close>, \<^verbatim>\<open>pem.Decode\<close>, \<^verbatim>\<open>x509.ParseCertificate\<close>, \<^verbatim>\<open>x509.ParseCertificates\<close>,
  \<^verbatim>\<open>x509.ParsePKCS8PrivateKey\<close> and \<^verbatim>\<open>(*x509.Certificate).Verify\<close> (\<open>None\<close> is a nil error).
  \<open>Verify\<close> is taken at one instant: its answer depends on the certificate and the options
  only. Every theorem below holds for all of them unless it names a concrete one.
\<close>

record 'f world =
  ReadFile :: "string \<Rightarrow> error + 'f"
  pemDecode :: "'f \<Rightarrow> Block option \<times> 'f"
  ParseCertificate :: "byte list \<Rightarrow> error + x509_Certificate"
  ParseCertificates :: "byte list \<Rightarrow> error + x509_Certificate list"
  ParsePKCS8PrivateKey :: "byte list \<Rightarrow> error + anykey"
  Verify :: "x509_Certificate \<Rightarrow> VerifyOptions \<Rightarrow> error option"

text \<open>\<^verbatim>\<open>tls.Certificate\<close>, \<^verbatim>\<open>tls.ClientHelloInfo\<close>, \<^verbatim>\<open>tls.CertificateRequestInfo\<close>, \<^verbatim>\<open>tls.Config\<close>.\<close>

record tls_Certificate =
  Certificate :: "byte list list"
  PrivateKey :: Signer
  Leaf :: x509_Certificate

record ClientHelloInfo =
  ServerName :: string

record CertificateRequestInfo =
  AcceptableCAs :: "byte list list"

datatype ClientAuthType =
  NoClientCert | RequestClientCert | RequireAnyClientCert
  | VerifyClientCertIfGiven | RequireAndVerifyClientCert

definition VersionTLS12 :: "16 word" where "VersionTLS12 = 0x0303"
definition VersionTLS13 :: "16 word" where "VersionTLS13 = 0x0304"

record tls_Config =
  GetCertificate :: "ClientHelloInfo \<Rightarrow> tls_Certificate result"
  GetClientCertificate :: "CertificateRequestInfo \<Rightarrow> tls_Certificate result"
  VerifyPeerCertificate :: "byte list list \<Rightarrow> x509_Certificate list list \<Rightarrow> unit result"
  ClientAuth :: ClientAuthType
  InsecureSkipVerify :: bool
  MinVersion :: "16 word"

section \<open>trust/bundle.go\<close>

record Bundle =
  cert :: tls_Certificate
  roots :: CertPool

subsection \<open>The policy checks\<close>

definition validateCertificate :: "x509_Certificate \<Rightarrow> error option" where
  "validateCertificate c =
     (if \<not> BasicConstraintsValid c then Some (New ''basic constraints invalid'') else None)"

text \<open>The loop of \<^verbatim>\<open>validateLeaf\<close> over \<^verbatim>\<open>c.ExtKeyUsage\<close>, on the pair \<^verbatim>\<open>(clientAuth, serverAuth)\<close>.\<close>

fun validateLeaf_loop :: "int list \<Rightarrow> bool \<times> bool \<Rightarrow> bool \<times> bool" where
  "validateLeaf_loop [] flags = flags"
| "validateLeaf_loop (u # us) (clientAuth, serverAuth) =
     validateLeaf_loop us
       (if u = ExtKeyUsageClientAuth then (True, serverAuth)
        else if u = ExtKeyUsageServerAuth then (clientAuth, True)
        else (clientAuth, serverAuth))"

definition validateLeaf :: "x509_Certificate \<Rightarrow> error option" where
  "validateLeaf c =
     (case validateCertificate c of
        Some err \<Rightarrow> Some err
      | None \<Rightarrow>
          if IsCA c then Some (New ''is a CA'')
          else if KeyUsage c \<noteq> KeyUsageDigitalSignature then Some (New ''invalid key usage'')
          else
            (case validateLeaf_loop (ExtKeyUsage c) (False, False) of
               (clientAuth, serverAuth) \<Rightarrow>
                 if \<not> (clientAuth \<and> serverAuth) then Some (New ''invalid extended key usage'')
                 else None))"

definition verifyCA :: "'f world \<Rightarrow> x509_Certificate \<Rightarrow> CertPool \<Rightarrow> error option" where
  "verifyCA w c rts =
     (if \<not> IsCA c then Some (New ''not a CA'')
      else if KeyUsage c \<noteq> KeyUsageCertSign then Some (New ''invalid key usage'')
      else if length (ExtKeyUsage c) \<noteq> 0 then Some (New ''invalid extended key usage'')
      else Verify w c \<lparr>Intermediates = None, Roots = Some rts\<rparr>)"

definition verifyRoot :: "'f world \<Rightarrow> x509_Certificate \<Rightarrow> error option" where
  "verifyRoot w c =
     (case validateCertificate c of
        Some err \<Rightarrow> Some err
      | None \<Rightarrow>
          (let self = AddCert NewCertPool c in
           case verifyCA w c self of Some err \<Rightarrow> Some err | None \<Rightarrow> None))"

definition verifyIntermediate :: "'f world \<Rightarrow> x509_Certificate \<Rightarrow> CertPool \<Rightarrow> error option" where
  "verifyIntermediate w c rts =
     (case validateCertificate c of
        Some err \<Rightarrow> Some err
      | None \<Rightarrow> (case verifyCA w c rts of Some err \<Rightarrow> Some err | None \<Rightarrow> None))"

text \<open>
  The loop of \<^verbatim>\<open>verifyChain\<close> over \<^verbatim>\<open>chain[1:]\<close>: \<open>i\<close> is the loop index, the result the error
  returned from inside the loop or the pool of intermediates after it.
\<close>

fun verifyChain_loop ::
  "'f world \<Rightarrow> CertPool \<Rightarrow> nat \<Rightarrow> x509_Certificate list \<Rightarrow> CertPool \<Rightarrow> error + CertPool" where
  "verifyChain_loop w rts i [] intermediates = Inr intermediates"
| "verifyChain_loop w rts i (c # cs) intermediates =
     (case verifyIntermediate w c rts of
        Some err \<Rightarrow> Inl (Errorf (''chain['' @ itoa (i + 1) @ '']: '') err)
      | None \<Rightarrow> verifyChain_loop w rts (i + 1) cs (AddCert intermediates c))"

definition verifyChain ::
  "'f world \<Rightarrow> x509_Certificate list \<Rightarrow> CertPool \<Rightarrow> x509_Certificate result" where
  "verifyChain w chain rts =
     (case chain of
        [] \<Rightarrow> Panic ''runtime error: index out of range [0] with length 0''
      | leaf # rest \<Rightarrow>
          (case validateLeaf leaf of
             Some err \<Rightarrow> Fail (Errorf ''chain[0]: '' err)
           | None \<Rightarrow>
               (case (if length chain > 1
                      then map_sum id Some (verifyChain_loop w rts 0 rest NewCertPool)
                      else Inr None) of
                  Inl err \<Rightarrow> Fail err
                | Inr intermediates \<Rightarrow>
                    (case Verify w leaf \<lparr>Intermediates = intermediates, Roots = Some rts\<rparr> of
                       Some err \<Rightarrow> Fail err
                     | None \<Rightarrow> Return leaf))))"

subsection \<open>Construction\<close>

text \<open>The three loops of \<^verbatim>\<open>NewBundle\<close>: over the roots with their index, into the pool, over the chain.\<close>

fun NewBundle_verifyRoots :: "'f world \<Rightarrow> nat \<Rightarrow> x509_Certificate list \<Rightarrow> error option" where
  "NewBundle_verifyRoots w i [] = None"
| "NewBundle_verifyRoots w i (c # cs) =
     (case verifyRoot w c of
        Some err \<Rightarrow> Some (Errorf (''trust: root['' @ itoa i @ '']: '') err)
      | None \<Rightarrow> NewBundle_verifyRoots w (i + 1) cs)"

fun NewBundle_addRoots :: "CertPool \<Rightarrow> x509_Certificate list \<Rightarrow> CertPool" where
  "NewBundle_addRoots rootPool [] = rootPool"
| "NewBundle_addRoots rootPool (c # cs) = NewBundle_addRoots (AddCert rootPool c) cs"

fun NewBundle_appendRaw :: "byte list list \<Rightarrow> x509_Certificate list \<Rightarrow> byte list list" where
  "NewBundle_appendRaw certificate [] = certificate"
| "NewBundle_appendRaw certificate (c # cs) = NewBundle_appendRaw (certificate @ [Raw c]) cs"

definition NewBundle ::
  "'f world \<Rightarrow> x509_Certificate list \<Rightarrow> Signer \<Rightarrow> x509_Certificate list \<Rightarrow> Bundle result" where
  "NewBundle w chain signer rts =
     (if length chain = 0 then Fail (New ''trust: empty chain'')
      else if length rts = 0 then Fail (New ''trust: empty roots'')
      else
        (case NewBundle_verifyRoots w 0 rts of
           Some err \<Rightarrow> Fail err
         | None \<Rightarrow>
             (let rootPool = NewBundle_addRoots NewCertPool rts in
              case verifyChain w chain rootPool of
                Panic msg \<Rightarrow> Panic msg
              | Fail err \<Rightarrow> Fail (Errorf ''trust: '' err)
              | Return leaf \<Rightarrow>
                  Return \<lparr>cert = \<lparr>Certificate = NewBundle_appendRaw [] chain,
                                  PrivateKey = signer, Leaf = leaf\<rparr>,
                          roots = rootPool\<rparr>)))"

subsection \<open>Loading from PEM files\<close>

text \<open>
  The loop of \<^verbatim>\<open>LoadCertificates\<close>. It runs until \<^verbatim>\<open>pem.Decode\<close> finds no block; for a
  decoder that always finds one it does not return, which is the value \<open>None\<close>.
\<close>

partial_function (option) LoadCertificates_loop ::
  "'f world \<Rightarrow> 'f \<Rightarrow> byte list \<Rightarrow> byte list option" where
  "LoadCertificates_loop w contents der =
     (case pemDecode w contents of
        (None, rest) \<Rightarrow> Some der
      | (Some blk, rest) \<Rightarrow>
          if Type blk \<noteq> ''CERTIFICATE'' then LoadCertificates_loop w rest der
          else LoadCertificates_loop w rest (der @ Bytes blk))"

definition LoadCertificates :: "'f world \<Rightarrow> string \<Rightarrow> (error + x509_Certificate list) option" where
  "LoadCertificates w name =
     (case ReadFile w name of
        Inl err \<Rightarrow> Some (Inl err)
      | Inr contents \<Rightarrow>
          (case LoadCertificates_loop w contents [] of
             None \<Rightarrow> None
           | Some der \<Rightarrow> Some (ParseCertificates w der)))"

definition LoadPrivateKey :: "'f world \<Rightarrow> string \<Rightarrow> Signer result" where
  "LoadPrivateKey w name =
     (case ReadFile w name of
        Inl err \<Rightarrow> Fail err
      | Inr contents \<Rightarrow>
          (case fst (pemDecode w contents) of
             None \<Rightarrow> Fail (New (''trust: load '' @ name @ '': no private key found''))
           | Some blk \<Rightarrow>
               if Type blk \<noteq> ''PRIVATE KEY''
               then Fail (New (''trust: load '' @ name @ '': no private key found''))
               else
                 (case ParsePKCS8PrivateKey w (Bytes blk) of
                    Inl err \<Rightarrow> Fail err
                  | Inr (SignerKey key) \<Rightarrow> Return key
                  | Inr OtherKey \<Rightarrow>
                      Panic ''interface conversion: interface {} is not crypto.Signer'')))"

definition LoadPEM :: "'f world \<Rightarrow> string \<Rightarrow> string \<Rightarrow> string \<Rightarrow> Bundle result option" where
  "LoadPEM w certFile keyFile caFile =
     (case LoadCertificates w certFile of
        None \<Rightarrow> None
      | Some (Inl err) \<Rightarrow> Some (Fail err)
      | Some (Inr chain) \<Rightarrow>
          (case LoadPrivateKey w keyFile of
             Panic msg \<Rightarrow> Some (Panic msg)
           | Fail err \<Rightarrow> Some (Fail err)
           | Return signer \<Rightarrow>
               (case LoadCertificates w caFile of
                  None \<Rightarrow> None
                | Some (Inl err) \<Rightarrow> Some (Fail err)
                | Some (Inr rts) \<Rightarrow> Some (NewBundle w chain signer rts))))"

subsection \<open>The TLS configuration\<close>

definition getCertificate :: "Bundle \<Rightarrow> ClientHelloInfo \<Rightarrow> tls_Certificate result" where
  "getCertificate b info = Return (cert b)"

definition getClientCertificate :: "Bundle \<Rightarrow> CertificateRequestInfo \<Rightarrow> tls_Certificate result" where
  "getClientCertificate b info = Return (cert b)"

text \<open>The loop of \<^verbatim>\<open>verifyPeerCertificate\<close> over \<^verbatim>\<open>rawCerts\<close>, building \<^verbatim>\<open>chain\<close>.\<close>

fun verifyPeerCertificate_loop ::
  "'f world \<Rightarrow> byte list list \<Rightarrow> x509_Certificate list \<Rightarrow> error + x509_Certificate list" where
  "verifyPeerCertificate_loop w [] chain = Inr chain"
| "verifyPeerCertificate_loop w (raw # rawCerts) chain =
     (case ParseCertificate w raw of
        Inl err \<Rightarrow> Inl err
      | Inr crt \<Rightarrow> verifyPeerCertificate_loop w rawCerts (chain @ [crt]))"

definition verifyPeerCertificate ::
  "'f world \<Rightarrow> Bundle \<Rightarrow> byte list list \<Rightarrow> x509_Certificate list list \<Rightarrow> unit result" where
  "verifyPeerCertificate w b rawCerts verifiedChains =
     (case verifyPeerCertificate_loop w rawCerts [] of
        Inl err \<Rightarrow> Fail err
      | Inr chain \<Rightarrow>
          (case verifyChain w chain (roots b) of
             Panic msg \<Rightarrow> Panic msg
           | Fail err \<Rightarrow> Fail err
           | Return leaf \<Rightarrow> Return ()))"

definition TLSConfig :: "'f world \<Rightarrow> Bundle \<Rightarrow> tls_Config" where
  "TLSConfig w b =
     \<lparr>GetCertificate = getCertificate b,
      GetClientCertificate = getClientCertificate b,
      VerifyPeerCertificate = verifyPeerCertificate w b,
      ClientAuth = RequireAnyClientCert,
      InsecureSkipVerify = True,
      MinVersion = VersionTLS13\<rparr>"

section \<open>The blocks of a PEM file\<close>

text \<open>
  The blocks \<^verbatim>\<open>pem.Decode\<close> finds in a file when it is applied again and again to what it
  left, as far as \<open>n\<close> applications reach: \<open>Some bs\<close> when the end of the file was reached
  within them, and then \<open>bs\<close> are all the blocks of the file, in file order.
\<close>

fun pem_blocks :: "'f world \<Rightarrow> nat \<Rightarrow> 'f \<Rightarrow> Block list option" where
  "pem_blocks w 0 contents = None"
| "pem_blocks w (Suc n) contents =
     (case pemDecode w contents of
        (None, rest) \<Rightarrow> Some []
      | (Some blk, rest) \<Rightarrow> map_option ((#) blk) (pem_blocks w n rest))"

section \<open>A concrete library and credential set\<close>

text \<open>
  Closed instances need a concrete standard library. Here a file is a sequence of PEM blocks
  and other text; the decoder returns the first block after any text, and the whole input
  when there is none; a certificate is encoded in one byte and a key in one byte; path
  validation accepts a certificate that is in the roots, signed by a root, or signed by an
  intermediate that a root signed. The credentials are the ones \<^verbatim>\<open>trustgen\<close> makes: a
  self-signed root, an intermediate under it and a leaf under the intermediate.
\<close>

datatype pem_item = PEM string "byte list" | Text string

fun fixture_decode_from :: "pem_item list \<Rightarrow> pem_item list \<Rightarrow> Block option \<times> pem_item list" where
  "fixture_decode_from whole [] = (None, whole)"
| "fixture_decode_from whole (Text t # items) = fixture_decode_from whole items"
| "fixture_decode_from whole (PEM ty bs # items) = (Some \<lparr>Type = ty, Bytes = bs\<rparr>, items)"

definition fixture_decode :: "pem_item list \<Rightarrow> Block option \<times> pem_item list" where
  "fixture_decode contents = fixture_decode_from contents contents"

definition fixture_root :: x509_Certificate where
  "fixture_root =
     \<lparr>Raw = [1], PublicKey = [11], SignedBy = [11], IsCA = True,
      KeyUsage = KeyUsageCertSign, ExtKeyUsage = [], BasicConstraintsValid = True\<rparr>"

definition fixture_int :: x509_Certificate where
  "fixture_int =
     \<lparr>Raw = [2], PublicKey = [12], SignedBy = [11], IsCA = True,
      KeyUsage = KeyUsageCertSign, ExtKeyUsage = [], BasicConstraintsValid = True\<rparr>"

definition fixture_leaf :: x509_Certificate where
  "fixture_leaf =
     \<lparr>Raw = [3], PublicKey = [13], SignedBy = [12], IsCA = False,
      KeyUsage = KeyUsageDigitalSignature,
      ExtKeyUsage = [ExtKeyUsageClientAuth, ExtKeyUsageServerAuth],
      BasicConstraintsValid = True\<rparr>"

text \<open>The leaf with code signing added to its extended key usage.\<close>

definition fixture_leaf_extra :: x509_Certificate where
  "fixture_leaf_extra =
     \<lparr>Raw = [4], PublicKey = [14], SignedBy = [12], IsCA = False,
      KeyUsage = KeyUsageDigitalSignature,
      ExtKeyUsage = [ExtKeyUsageClientAuth, ExtKeyUsageServerAuth, ExtKeyUsageCodeSigning],
      BasicConstraintsValid = True\<rparr>"

definition fixture_known :: "x509_Certificate list" where
  "fixture_known = [fixture_root, fixture_int, fixture_leaf, fixture_leaf_extra]"

definition fixture_ParseCertificate :: "byte list \<Rightarrow> error + x509_Certificate" where
  "fixture_ParseCertificate der =
     (case find (\<lambda>c. Raw c = der) fixture_known of
        None \<Rightarrow> Inl (Lib ''x509: malformed certificate'')
      | Some c \<Rightarrow> Inr c)"

fun fixture_ParseCertificates :: "byte list \<Rightarrow> error + x509_Certificate list" where
  "fixture_ParseCertificates [] = Inr []"
| "fixture_ParseCertificates (b # der) =
     (case fixture_ParseCertificate [b] of
        Inl err \<Rightarrow> Inl err
      | Inr c \<Rightarrow> map_sum id ((#) c) (fixture_ParseCertificates der))"

definition fixture_ParsePKCS8PrivateKey :: "byte list \<Rightarrow> error + anykey" where
  "fixture_ParsePKCS8PrivateKey der =
     (case der of
        [k] \<Rightarrow> Inr (SignerKey (Signer [k]))
      | _ \<Rightarrow> Inl (Lib ''x509: failed to parse private key''))"

definition fixture_Verify :: "x509_Certificate \<Rightarrow> VerifyOptions \<Rightarrow> error option" where
  "fixture_Verify c opts =
     (let rts = (case Roots opts of None \<Rightarrow> [] | Some pool \<Rightarrow> pool);
          ints = (case Intermediates opts of None \<Rightarrow> [] | Some pool \<Rightarrow> pool)
      in if list_ex (\<lambda>r. r = c) rts
            \<or> list_ex (\<lambda>r. SignedBy c = PublicKey r) rts
            \<or> list_ex (\<lambda>i. SignedBy c = PublicKey i
                            \<and> list_ex (\<lambda>r. SignedBy i = PublicKey r) rts) ints
         then None
         else Some (Lib ''x509: certificate signed by unknown authority''))"

definition fixture_ReadFile :: "string \<Rightarrow> error + pem_item list" where
  "fixture_ReadFile name =
     (if name = ''cert.pem'' then Inr [PEM ''CERTIFICATE'' [3], PEM ''CERTIFICATE'' [2]]
      else if name = ''key.pem'' then Inr [PEM ''PRIVATE KEY'' [13]]
      else if name = ''ca.pem'' then Inr [PEM ''CERTIFICATE'' [1]]
      else if name = ''twokeys.pem''
        then Inr [PEM ''PRIVATE KEY'' [13], Text ''notes'', PEM ''PRIVATE KEY'' [99]]
      else if name = ''nocert.pem'' then Inr [Text ''notes'', PEM ''PRIVATE KEY'' [13]]
      else Inl (Lib (''open '' @ name @ '': no such file or directory'')))"

definition fixture :: "pem_item list world" where
  "fixture =
     \<lparr>ReadFile = fixture_ReadFile,
      pemDecode = fixture_decode,
      ParseCertificate = fixture_ParseCertificate,
      ParseCertificates = fixture_ParseCertificates,
      ParsePKCS8PrivateKey = fixture_ParsePKCS8PrivateKey,
      Verify = fixture_Verify\<rparr>"

section \<open>Unfolding the concrete library\<close>

lemmas fixture_defs =
  fixture_def fixture_root_def fixture_int_def fixture_leaf_def fixture_leaf_extra_def
  fixture_Verify_def fixture_ReadFile_def fixture_decode_def fixture_ParseCertificate_def
  fixture_ParsePKCS8PrivateKey_def fixture_known_def
  KeyUsageCertSign_def KeyUsageDigitalSignature_def ExtKeyUsageClientAuth_def
  ExtKeyUsageServerAuth_def ExtKeyUsageCodeSigning_def NewCertPool_def AddCert_def

lemmas policy_defs =
  validateCertificate_def validateLeaf_def verifyCA_def verifyRoot_def verifyIntermediate_def

lemma itoa_digits: "itoa 0 = ''0''" "itoa (Suc 0) = ''1''" "itoa 2 = ''2''"
  by (simp_all add: itoa.simps digit_def)

section \<open>The leaf policy\<close>

lemma validateLeaf_loop_eq:
  "validateLeaf_loop us (ca, sa) =
     (ca \<or> ExtKeyUsageClientAuth \<in> set us, sa \<or> ExtKeyUsageServerAuth \<in> set us)"
  by (induction us arbitrary: ca sa)
     (auto simp: ExtKeyUsageClientAuth_def ExtKeyUsageServerAuth_def)

text \<open>
  C1, as amended. \<open>validateLeaf\<close> checks, in this order, that the basic constraints are
  valid, that the certificate is not a CA, that the key usage is exactly the digital-signature
  bit, and that the extended key usage contains both client-auth and server-auth; it returns
  the error naming the first check that fails and succeeds when none does. Values of the
  extended key usage other than these two are not looked at.
\<close>

theorem validateLeaf_policy:
  "validateLeaf c =
     (if \<not> BasicConstraintsValid c then Some (New ''basic constraints invalid'')
      else if IsCA c then Some (New ''is a CA'')
      else if KeyUsage c \<noteq> KeyUsageDigitalSignature then Some (New ''invalid key usage'')
      else if \<not> (ExtKeyUsageClientAuth \<in> set (ExtKeyUsage c)
                 \<and> ExtKeyUsageServerAuth \<in> set (ExtKeyUsage c))
        then Some (New ''invalid extended key usage'')
      else None)"
  by (simp add: validateLeaf_def validateCertificate_def validateLeaf_loop_eq)

text \<open>
  C1 as stated fails: a leaf whose extended key usage is client-auth, server-auth and code
  signing passes \<open>validateLeaf\<close>, although it holds a value other than the two.
\<close>

theorem validateLeaf_extra_usage_counterexample:
  "validateLeaf fixture_leaf_extra = None
   \<and> \<not> set (ExtKeyUsage fixture_leaf_extra) \<subseteq> {ExtKeyUsageClientAuth, ExtKeyUsageServerAuth}"
  by (simp add: policy_defs fixture_defs)

section \<open>Construction and the signer\<close>

text \<open>
  C2, as amended. \<open>NewBundle\<close> never looks at the signer: whether it fails, and with which
  error, is the same for every signer, and a bundle it returns carries the signer it was
  given. No error reports a signer that does not match the leaf.
\<close>

theorem NewBundle_signer_unchecked:
  "NewBundle w chain signer rts =
     (case NewBundle w chain signer' rts of
        Return b \<Rightarrow> Return (b\<lparr>cert := (cert b)\<lparr>PrivateKey := signer\<rparr>\<rparr>)
      | Fail err \<Rightarrow> Fail err
      | Panic msg \<Rightarrow> Panic msg)"
  by (simp add: NewBundle_def Let_def split: option.splits result.splits)

text \<open>
  C2 as stated fails: with the leaf and intermediate under the root, \<open>NewBundle\<close> returns a
  bundle for a signer whose public key is not the leaf's.
\<close>

theorem NewBundle_unbound_signer_counterexample:
  "NewBundle fixture [fixture_leaf, fixture_int] (Signer [99]) [fixture_root] =
     Return \<lparr>cert = \<lparr>Certificate = [[3], [2]], PrivateKey = Signer [99], Leaf = fixture_leaf\<rparr>,
             roots = [fixture_root]\<rparr>
   \<and> Public (Signer [99]) \<noteq> PublicKey fixture_leaf"
  by (simp add: NewBundle_def verifyChain_def policy_defs fixture_defs)

text \<open>
  C7, as amended. \<open>NewBundle\<close> on an empty chain fails with the empty-chain error for every
  signer and every list of roots, the empty one included; on a non-empty chain and an empty
  list of roots it fails with the empty-roots error. Neither returns a bundle.
\<close>

theorem NewBundle_empty_inputs:
  "NewBundle w [] signer rts = Fail (New ''trust: empty chain'')
   \<and> (chain \<noteq> [] \<longrightarrow> NewBundle w chain signer [] = Fail (New ''trust: empty roots''))"
  by (simp add: NewBundle_def)

theorem NewBundle_empty_inputs_witness:
  "[fixture_leaf] \<noteq> []
   \<and> NewBundle fixture [fixture_leaf] (Signer [13]) [] = Fail (New ''trust: empty roots'')"
  using NewBundle_empty_inputs [of fixture "Signer [13]" "[]" "[fixture_leaf]"] by simp

text \<open>
  C7 as stated fails where both lists are empty: the chain is checked first, so the error is
  the empty-chain one, not the empty-roots one.
\<close>

theorem NewBundle_empty_both_counterexample:
  "NewBundle fixture [] (Signer [13]) [] = Fail (New ''trust: empty chain'')
   \<and> NewBundle fixture [] (Signer [13]) [] \<noteq> Fail (New ''trust: empty roots'')"
  by (simp add: NewBundle_def)

section \<open>The CA policy and the roots\<close>

lemma verifyIntermediate_None_iff:
  "verifyIntermediate w c rts = None \<longleftrightarrow>
     BasicConstraintsValid c \<and> IsCA c \<and> KeyUsage c = KeyUsageCertSign \<and> ExtKeyUsage c = []
     \<and> Verify w c \<lparr>Intermediates = None, Roots = Some rts\<rparr> = None"
  by (auto simp: verifyIntermediate_def validateCertificate_def verifyCA_def split: option.splits)

lemma verifyRoot_eq: "verifyRoot w c = verifyIntermediate w c [c]"
  by (simp add: verifyRoot_def verifyIntermediate_def NewCertPool_def AddCert_def
      split: option.splits)

lemma NewBundle_verifyRoots_first:
  "i < length rts \<Longrightarrow> \<forall>j<i. verifyRoot w (rts ! j) = None \<Longrightarrow> verifyRoot w (rts ! i) = Some e
   \<Longrightarrow> NewBundle_verifyRoots w k rts = Some (Errorf (''trust: root['' @ itoa (k + i) @ '']: '') e)"
proof (induction rts arbitrary: i k)
  case Nil
  then show ?case by simp
next
  case (Cons c cs)
  show ?case
  proof (cases i)
    case 0
    with Cons.prems show ?thesis by simp
  next
    case (Suc i')
    from Cons.prems Suc have c: "verifyRoot w c = None" by auto
    from Cons.prems Suc have "\<forall>j<i'. verifyRoot w (cs ! j) = None" by auto
    with Cons.IH[of i' "k + 1"] Cons.prems Suc c show ?thesis by simp
  qed
qed

lemma NewBundle_verifyRoots_None:
  "NewBundle_verifyRoots w k rts = None \<longleftrightarrow> (\<forall>r \<in> set rts. verifyRoot w r = None)"
  by (induction rts arbitrary: k) (auto split: option.splits)

text \<open>
  C5. A certificate passes the CA check against a root pool (\<open>verifyIntermediate\<close>, that is
  \<open>validateCertificate\<close> and then \<open>verifyCA\<close>) exactly when it is a CA, its key usage is
  exactly the cert-sign bit, its extended key usage is empty, its basic constraints are valid
  and path validation against the pool succeeds. \<open>verifyRoot\<close> is this check against the pool
  that holds the certificate alone. In \<open>NewBundle\<close> the first root that fails it is reported
  with its index, and a bundle is returned only when every root passes it.
\<close>

theorem CA_policy:
  "(verifyIntermediate w c rts = None \<longleftrightarrow>
      IsCA c \<and> KeyUsage c = KeyUsageCertSign \<and> ExtKeyUsage c = [] \<and> BasicConstraintsValid c
      \<and> Verify w c \<lparr>Intermediates = None, Roots = Some rts\<rparr> = None)
   \<and> verifyRoot w c = verifyIntermediate w c [c]
   \<and> (chain \<noteq> [] \<and> i < length rootCerts
        \<and> (\<forall>j<i. verifyRoot w (rootCerts ! j) = None) \<and> verifyRoot w (rootCerts ! i) = Some e
      \<longrightarrow> NewBundle w chain signer rootCerts
            = Fail (Errorf (''trust: root['' @ itoa i @ '']: '') e))
   \<and> (NewBundle w chain signer rootCerts = Return b
      \<longrightarrow> (\<forall>j<length rootCerts. verifyRoot w (rootCerts ! j) = None))"
proof -
  have P: "verifyIntermediate w c rts = None \<longleftrightarrow>
      IsCA c \<and> KeyUsage c = KeyUsageCertSign \<and> ExtKeyUsage c = [] \<and> BasicConstraintsValid c
      \<and> Verify w c \<lparr>Intermediates = None, Roots = Some rts\<rparr> = None"
    by (auto simp: verifyIntermediate_None_iff)
  have A: "NewBundle w chain signer rootCerts
            = Fail (Errorf (''trust: root['' @ itoa i @ '']: '') e)"
    if "chain \<noteq> []" "i < length rootCerts" "\<forall>j<i. verifyRoot w (rootCerts ! j) = None"
       "verifyRoot w (rootCerts ! i) = Some e"
  proof -
    from that have "rootCerts \<noteq> []" by auto
    with NewBundle_verifyRoots_first[OF that(2-4), of 0] that(1)
    show ?thesis by (simp add: NewBundle_def)
  qed
  have B: "\<forall>j<length rootCerts. verifyRoot w (rootCerts ! j) = None"
    if "NewBundle w chain signer rootCerts = Return b"
  proof -
    from that have "NewBundle_verifyRoots w 0 rootCerts = None"
      by (auto simp: NewBundle_def split: if_splits option.splits)
    then show ?thesis by (simp add: NewBundle_verifyRoots_None)
  qed
  show ?thesis
  proof (intro conjI impI)
    show "verifyIntermediate w c rts = None \<longleftrightarrow>
      IsCA c \<and> KeyUsage c = KeyUsageCertSign \<and> ExtKeyUsage c = [] \<and> BasicConstraintsValid c
      \<and> Verify w c \<lparr>Intermediates = None, Roots = Some rts\<rparr> = None" by (rule P)
    show "verifyRoot w c = verifyIntermediate w c [c]" by (rule verifyRoot_eq)
    show "NewBundle w chain signer rootCerts
            = Fail (Errorf (''trust: root['' @ itoa i @ '']: '') e)"
      if "chain \<noteq> [] \<and> i < length rootCerts
        \<and> (\<forall>j<i. verifyRoot w (rootCerts ! j) = None) \<and> verifyRoot w (rootCerts ! i) = Some e"
      using that A by blast
    show "\<forall>j<length rootCerts. verifyRoot w (rootCerts ! j) = None"
      if "NewBundle w chain signer rootCerts = Return b"
      using that by (rule B)
  qed
qed

theorem CA_policy_witness:
  "NewBundle fixture [fixture_leaf] (Signer [13]) [fixture_root, fixture_leaf]
     = Fail (Errorf ''trust: root[1]: '' (New ''not a CA''))
   \<and> verifyRoot fixture fixture_root = verifyIntermediate fixture fixture_root [fixture_root]
   \<and> verifyRoot fixture fixture_root = None"
proof -
  have r: "verifyRoot fixture fixture_root = None"
    by (simp add: policy_defs fixture_defs)
  have l: "verifyRoot fixture fixture_leaf = Some (New ''not a CA'')"
    by (simp add: policy_defs fixture_defs)
  have h: "[fixture_leaf] \<noteq> [] \<and> 1 < length [fixture_root, fixture_leaf]
        \<and> (\<forall>j<1. verifyRoot fixture ([fixture_root, fixture_leaf] ! j) = None)
        \<and> verifyRoot fixture ([fixture_root, fixture_leaf] ! 1) = Some (New ''not a CA'')"
    using r l by simp
  note T = CA_policy [of fixture fixture_root "[fixture_root]" "[fixture_leaf]" 1
      "[fixture_root, fixture_leaf]" "New ''not a CA''" "Signer [13]"]
  from T h have "NewBundle fixture [fixture_leaf] (Signer [13]) [fixture_root, fixture_leaf]
     = Fail (Errorf (''trust: root['' @ itoa 1 @ '']: '') (New ''not a CA''))"
    by blast
  moreover from T have "verifyRoot fixture fixture_root = verifyIntermediate fixture fixture_root [fixture_root]"
    by blast
  ultimately show ?thesis using r by (simp add: itoa_digits)
qed

section \<open>Verifying a chain\<close>

lemma verifyChain_loop_first:
  "i < length cs \<Longrightarrow> \<forall>j<i. verifyIntermediate w (cs ! j) rts = None
   \<Longrightarrow> verifyIntermediate w (cs ! i) rts = Some e
   \<Longrightarrow> verifyChain_loop w rts k cs pool = Inl (Errorf (''chain['' @ itoa (k + i + 1) @ '']: '') e)"
proof (induction cs arbitrary: i k pool)
  case Nil
  then show ?case by simp
next
  case (Cons c cs)
  show ?case
  proof (cases i)
    case 0
    with Cons.prems show ?thesis by simp
  next
    case (Suc i')
    from Cons.prems Suc have c: "verifyIntermediate w c rts = None" by auto
    from Cons.prems Suc have "\<forall>j<i'. verifyIntermediate w (cs ! j) rts = None" by auto
    with Cons.IH[of i' "k + 1" "AddCert pool c"] Cons.prems Suc c show ?thesis by simp
  qed
qed

lemma verifyChain_loop_all:
  "\<forall>c \<in> set cs. verifyIntermediate w c rts = None
   \<Longrightarrow> verifyChain_loop w rts k cs pool = Inr (foldl AddCert pool cs)"
  by (induction cs arbitrary: k pool) auto

text \<open>
  C4. On a non-empty chain, \<open>verifyChain\<close> checks \<open>chain ! 0\<close> under the leaf policy and
  fails with that error behind \<open>chain[0]\<close>; otherwise it checks \<open>chain ! 1\<close>, \<open>chain ! 2\<close>, ...
  in order under the CA policy against the roots and fails at the first that violates it,
  with that error behind the index; otherwise it runs path validation of \<open>chain ! 0\<close> with the
  roots and the pool of all \<open>chain ! i\<close>, \<open>i \<ge> 1\<close>, as intermediates, and returns \<open>chain ! 0\<close>
  when that succeeds and its error when it does not.
\<close>

theorem verifyChain_steps:
  assumes "chain \<noteq> []"
  shows "(validateLeaf (chain ! 0) = Some e
            \<longrightarrow> verifyChain w chain rts = Fail (Errorf ''chain[0]: '' e))
       \<and> (validateLeaf (chain ! 0) = None \<and> 1 \<le> i \<and> i < length chain
            \<and> (\<forall>j. 1 \<le> j \<and> j < i \<longrightarrow> verifyIntermediate w (chain ! j) rts = None)
            \<and> verifyIntermediate w (chain ! i) rts = Some e
            \<longrightarrow> verifyChain w chain rts = Fail (Errorf (''chain['' @ itoa i @ '']: '') e))
       \<and> (validateLeaf (chain ! 0) = None
            \<and> (\<forall>j. 1 \<le> j \<and> j < length chain \<longrightarrow> verifyIntermediate w (chain ! j) rts = None)
            \<longrightarrow> verifyChain w chain rts =
                  (case Verify w (chain ! 0)
                          \<lparr>Intermediates =
                             (if 1 < length chain then Some (foldl AddCert NewCertPool (tl chain))
                              else None),
                           Roots = Some rts\<rparr> of
                     Some err \<Rightarrow> Fail err
                   | None \<Rightarrow> Return (chain ! 0)))"
proof -
  from assms obtain leaf rest where chain: "chain = leaf # rest" by (cases chain) auto
  have A: "validateLeaf (chain ! 0) = Some e
            \<longrightarrow> verifyChain w chain rts = Fail (Errorf ''chain[0]: '' e)"
    by (simp add: chain verifyChain_def)
  have B: "verifyChain w chain rts = Fail (Errorf (''chain['' @ itoa i @ '']: '') e)"
    if leaf: "validateLeaf (chain ! 0) = None" and i: "1 \<le> i" "i < length chain"
      and before: "\<forall>j. 1 \<le> j \<and> j < i \<longrightarrow> verifyIntermediate w (chain ! j) rts = None"
      and at: "verifyIntermediate w (chain ! i) rts = Some e"
  proof -
    from i obtain i' where i': "i = Suc i'" by (cases i) auto
    have b: "\<forall>j<i'. verifyIntermediate w (rest ! j) rts = None"
    proof (intro allI impI)
      fix j assume "j < i'"
      with before[rule_format, of "Suc j"] i' chain
      show "verifyIntermediate w (rest ! j) rts = None" by simp
    qed
    have l: "i' < length rest" using i i' chain by simp
    have a: "verifyIntermediate w (rest ! i') rts = Some e" using at i' chain by simp
    have "verifyChain_loop w rts 0 rest NewCertPool
        = Inl (Errorf (''chain['' @ itoa (0 + i' + 1) @ '']: '') e)"
      by (rule verifyChain_loop_first [OF l b a])
    moreover have "rest \<noteq> []" using l by auto
    ultimately show ?thesis using leaf chain i' by (simp add: verifyChain_def)
  qed
  have C: "verifyChain w chain rts =
                  (case Verify w (chain ! 0)
                          \<lparr>Intermediates =
                             (if 1 < length chain then Some (foldl AddCert NewCertPool (tl chain))
                              else None),
                           Roots = Some rts\<rparr> of
                     Some err \<Rightarrow> Fail err
                   | None \<Rightarrow> Return (chain ! 0))"
    if leaf: "validateLeaf (chain ! 0) = None"
      and every: "\<forall>j. 1 \<le> j \<and> j < length chain \<longrightarrow> verifyIntermediate w (chain ! j) rts = None"
  proof -
    have "\<forall>c \<in> set rest. verifyIntermediate w c rts = None"
    proof
      fix c assume "c \<in> set rest"
      then obtain j where "j < length rest" "rest ! j = c" by (auto simp: in_set_conv_nth)
      with every[rule_format, of "Suc j"] chain
      show "verifyIntermediate w c rts = None" by simp
    qed
    then have "verifyChain_loop w rts 0 rest NewCertPool = Inr (foldl AddCert NewCertPool rest)"
      by (rule verifyChain_loop_all)
    then show ?thesis using leaf unfolding chain
      by (simp add: verifyChain_def split: option.splits)
  qed
  from A B C show ?thesis by blast
qed

theorem verifyChain_steps_witness:
  "verifyChain fixture [fixture_root] [fixture_root]
     = Fail (Errorf ''chain[0]: '' (New ''is a CA''))
   \<and> verifyChain fixture [fixture_leaf, fixture_int, fixture_leaf] [fixture_root]
     = Fail (Errorf ''chain[2]: '' (New ''not a CA''))
   \<and> verifyChain fixture [fixture_leaf, fixture_int] [fixture_root] = Return fixture_leaf
   \<and> verifyChain fixture [fixture_leaf] [fixture_root]
     = Fail (Lib ''x509: certificate signed by unknown authority'')"
proof -
  have leaf: "validateLeaf fixture_leaf = None"
    by (simp add: policy_defs fixture_defs)
  have root: "validateLeaf fixture_root = Some (New ''is a CA'')"
    by (simp add: policy_defs fixture_defs)
  have int: "verifyIntermediate fixture fixture_int [fixture_root] = None"
    by (simp add: policy_defs fixture_defs)
  have bad: "verifyIntermediate fixture fixture_leaf [fixture_root] = Some (New ''not a CA'')"
    by (simp add: policy_defs fixture_defs)
  have one: "j = 1" if "1 \<le> j \<and> j < 2" for j :: nat using that by simp
  have first: "verifyChain fixture [fixture_root] [fixture_root]
     = Fail (Errorf ''chain[0]: '' (New ''is a CA''))"
    using verifyChain_steps [of "[fixture_root]" "New ''is a CA''" fixture "[fixture_root]"] root
    by simp
  have before2: "\<forall>j. 1 \<le> j \<and> j < 2
      \<longrightarrow> verifyIntermediate fixture ([fixture_leaf, fixture_int, fixture_leaf] ! j) [fixture_root] = None"
    using one int by auto
  have second: "verifyChain fixture [fixture_leaf, fixture_int, fixture_leaf] [fixture_root]
     = Fail (Errorf (''chain['' @ itoa 2 @ '']: '') (New ''not a CA''))"
    using verifyChain_steps [of "[fixture_leaf, fixture_int, fixture_leaf]" "New ''not a CA''"
        fixture "[fixture_root]" 2] leaf bad before2
    by simp
  have all2: "\<forall>j. 1 \<le> j \<and> j < length [fixture_leaf, fixture_int]
      \<longrightarrow> verifyIntermediate fixture ([fixture_leaf, fixture_int] ! j) [fixture_root] = None"
    using one int by auto
  have third: "verifyChain fixture [fixture_leaf, fixture_int] [fixture_root] = Return fixture_leaf"
    using verifyChain_steps [of "[fixture_leaf, fixture_int]" "New ''x''" fixture "[fixture_root]" 0]
      leaf all2
    by (simp add: fixture_defs)
  have fourth: "verifyChain fixture [fixture_leaf] [fixture_root]
     = Fail (Lib ''x509: certificate signed by unknown authority'')"
    using verifyChain_steps [of "[fixture_leaf]" "New ''x''" fixture "[fixture_root]" 0] leaf
    by (simp add: fixture_defs)
  from first second third fourth show ?thesis by (simp add: itoa_digits)
qed

section \<open>Verifying the peer\<close>

lemma verifyChain_nonempty_no_panic:
  "chain \<noteq> [] \<Longrightarrow> verifyChain w chain rts \<noteq> Panic msg"
  by (cases chain) (auto simp: verifyChain_def split: option.splits sum.splits)

lemma verifyPeerCertificate_loop_length:
  "verifyPeerCertificate_loop w rawCerts chain = Inr chain'
   \<Longrightarrow> length chain' = length chain + length rawCerts"
  by (induction rawCerts arbitrary: chain) (auto split: sum.splits)

lemma verifyPeerCertificate_loop_parsed:
  "verifyPeerCertificate_loop w rawCerts chain = Inr chain'
   \<Longrightarrow> map Inr chain' = map Inr chain @ map (ParseCertificate w) rawCerts"
  by (induction rawCerts arbitrary: chain) (auto split: sum.splits)

lemma verifyPeerCertificate_nonempty_no_panic:
  "rawCerts \<noteq> [] \<Longrightarrow> verifyPeerCertificate w b rawCerts verifiedChains \<noteq> Panic msg"
proof (cases "verifyPeerCertificate_loop w rawCerts []")
  case (Inl err)
  then show ?thesis by (simp add: verifyPeerCertificate_def)
next
  case (Inr chain)
  assume "rawCerts \<noteq> []"
  with verifyPeerCertificate_loop_length[OF Inr] have "chain \<noteq> []" by auto
  then have "verifyChain w chain (roots b) \<noteq> Panic msg"
    by (rule verifyChain_nonempty_no_panic)
  with Inr show ?thesis by (auto simp: verifyPeerCertificate_def split: result.splits)
qed

lemma verifyPeerCertificate_accepts:
  "verifyPeerCertificate w b rawCerts verifiedChains = Return ()
   \<Longrightarrow> \<exists>chain. map (ParseCertificate w) rawCerts = map Inr chain
         \<and> verifyChain w chain (roots b) = Return (chain ! 0)"
proof -
  assume ok: "verifyPeerCertificate w b rawCerts verifiedChains = Return ()"
  then obtain chain leaf where loop: "verifyPeerCertificate_loop w rawCerts [] = Inr chain"
    and v: "verifyChain w chain (roots b) = Return leaf"
    by (auto simp: verifyPeerCertificate_def split: sum.splits result.splits)
  from v have "leaf = chain ! 0"
    by (cases chain) (auto simp: verifyChain_def split: option.splits sum.splits if_splits)
  with verifyPeerCertificate_loop_parsed[OF loop] v
  have "map (ParseCertificate w) rawCerts = map Inr chain
         \<and> verifyChain w chain (roots b) = Return (chain ! 0)" by simp
  then show ?thesis by (rule exI)
qed

text \<open>
  C3. \<open>verifyPeerCertificate\<close> on the empty list of raw certificates hands the empty chain to
  \<open>verifyChain\<close>, whose read of \<open>chain[0]\<close> panics: the call neither succeeds nor returns an
  error.
\<close>

theorem verifyPeerCertificate_empty_panics:
  "verifyPeerCertificate w b [] verifiedChains =
     Panic ''runtime error: index out of range [0] with length 0''"
  by (simp add: verifyPeerCertificate_def verifyChain_def)

section \<open>Loading from PEM files\<close>

text \<open>
  When the decoder reaches the end of the file after finitely many blocks, the loop of
  \<open>LoadCertificates\<close> returns, and what it has collected is the bytes of the blocks of type
  CERTIFICATE, in file order.
\<close>

lemma LoadCertificates_loop_blocks:
  "pem_blocks w n contents = Some bs
   \<Longrightarrow> LoadCertificates_loop w contents der
       = Some (der @ concat (map Bytes (filter (\<lambda>blk. Type blk = ''CERTIFICATE'') bs)))"
proof (induction n arbitrary: contents bs der)
  case 0
  then show ?case by simp
next
  case (Suc n)
  show ?case
  proof (cases "pemDecode w contents")
    case (Pair p rest)
    show ?thesis
    proof (cases p)
      case None
      with Pair Suc.prems show ?thesis
        by (subst LoadCertificates_loop.simps) simp
    next
      case (Some blk)
      with Pair Suc.prems obtain bs' where bs': "pem_blocks w n rest = Some bs'" "bs = blk # bs'"
        by auto
      from Suc.IH[OF bs'(1)] Pair Some bs'(2) show ?thesis
        by (subst LoadCertificates_loop.simps) simp
    qed
  qed
qed

lemma NewBundle_verifyRoots_prefix:
  "NewBundle_verifyRoots w k rts = Some err \<Longrightarrow> prefix ''trust: '' (Error err)"
  by (induction rts arbitrary: k) (auto split: option.splits)

lemma NewBundle_error_prefix:
  "NewBundle w chain signer rts = Fail err \<Longrightarrow> prefix ''trust: '' (Error err)"
  by (auto simp: NewBundle_def Let_def split: if_splits option.splits result.splits
      dest: NewBundle_verifyRoots_prefix)

lemma fixture_pem_blocks:
  "pem_blocks fixture (Suc (Suc (Suc 0))) [PEM ''CERTIFICATE'' [3], PEM ''CERTIFICATE'' [2]]
     = Some [\<lparr>Type = ''CERTIFICATE'', Bytes = [3]\<rparr>, \<lparr>Type = ''CERTIFICATE'', Bytes = [2]\<rparr>]"
  "pem_blocks fixture (Suc (Suc 0)) [PEM ''CERTIFICATE'' [1]]
     = Some [\<lparr>Type = ''CERTIFICATE'', Bytes = [1]\<rparr>]"
  "pem_blocks fixture (Suc (Suc 0)) [Text ''notes'', PEM ''PRIVATE KEY'' [13]]
     = Some [\<lparr>Type = ''PRIVATE KEY'', Bytes = [13]\<rparr>]"
  "pem_blocks fixture (Suc (Suc (Suc 0)))
       [PEM ''PRIVATE KEY'' [13], Text ''notes'', PEM ''PRIVATE KEY'' [99]]
     = Some [\<lparr>Type = ''PRIVATE KEY'', Bytes = [13]\<rparr>, \<lparr>Type = ''PRIVATE KEY'', Bytes = [99]\<rparr>]"
  by (simp_all add: fixture_def fixture_decode_def)

lemma fixture_LoadCertificates:
  "LoadCertificates fixture ''cert.pem'' = Some (Inr [fixture_leaf, fixture_int])"
  "LoadCertificates fixture ''ca.pem'' = Some (Inr [fixture_root])"
proof -
  have r: "ReadFile fixture ''cert.pem'' = Inr [PEM ''CERTIFICATE'' [3], PEM ''CERTIFICATE'' [2]]"
    "ReadFile fixture ''ca.pem'' = Inr [PEM ''CERTIFICATE'' [1]]"
    by (simp_all add: fixture_def fixture_ReadFile_def)
  have p: "ParseCertificates fixture [3, 2] = Inr [fixture_leaf, fixture_int]"
    "ParseCertificates fixture [1] = Inr [fixture_root]"
    by (simp_all add: fixture_defs)
  show "LoadCertificates fixture ''cert.pem'' = Some (Inr [fixture_leaf, fixture_int])"
    using LoadCertificates_loop_blocks [OF fixture_pem_blocks(1), of "[]"] r p
    by (simp add: LoadCertificates_def)
  show "LoadCertificates fixture ''ca.pem'' = Some (Inr [fixture_root])"
    using LoadCertificates_loop_blocks [OF fixture_pem_blocks(2), of "[]"] r p
    by (simp add: LoadCertificates_def)
qed

lemma fixture_LoadPrivateKey:
  "LoadPrivateKey fixture ''key.pem'' = Return (Signer [13])"
  by (simp add: LoadPrivateKey_def fixture_defs)

text \<open>
  C8, as amended. \<open>LoadPrivateKey\<close> returns a key exactly when the file can be read, the
  first block the decoder finds in it is a private-key block, and its bytes parse as a PKCS #8
  key that is a signer. When the decoder finds no block, or the first block is not a
  private-key block, it fails with the error that no private key was found in the named file.
  What follows the first block is never looked at.
\<close>

theorem LoadPrivateKey_first_block:
  "(LoadPrivateKey w name = Return key \<longleftrightarrow>
      (\<exists>contents blk. ReadFile w name = Inr contents
         \<and> fst (pemDecode w contents) = Some blk \<and> Type blk = ''PRIVATE KEY''
         \<and> ParsePKCS8PrivateKey w (Bytes blk) = Inr (SignerKey key)))
   \<and> (ReadFile w name = Inr contents
        \<and> (fst (pemDecode w contents) = None
            \<or> (\<exists>blk. fst (pemDecode w contents) = Some blk \<and> Type blk \<noteq> ''PRIVATE KEY''))
      \<longrightarrow> LoadPrivateKey w name
            = Fail (New (''trust: load '' @ name @ '': no private key found'')))"
  by (auto simp: LoadPrivateKey_def split: sum.splits option.splits anykey.splits)

theorem LoadPrivateKey_first_block_witness:
  "LoadPrivateKey fixture ''key.pem'' = Return (Signer [13])
   \<and> LoadPrivateKey fixture ''cert.pem''
       = Fail (New ''trust: load cert.pem: no private key found'')"
proof -
  have k: "ReadFile fixture ''key.pem'' = Inr [PEM ''PRIVATE KEY'' [13]]
      \<and> fst (pemDecode fixture [PEM ''PRIVATE KEY'' [13]]) = Some \<lparr>Type = ''PRIVATE KEY'', Bytes = [13]\<rparr>
      \<and> Type \<lparr>Type = ''PRIVATE KEY'', Bytes = [13]\<rparr> = ''PRIVATE KEY''
      \<and> ParsePKCS8PrivateKey fixture (Bytes \<lparr>Type = ''PRIVATE KEY'', Bytes = [13]\<rparr>)
          = Inr (SignerKey (Signer [13]))"
    by (simp add: fixture_defs)
  have c: "ReadFile fixture ''cert.pem'' = Inr [PEM ''CERTIFICATE'' [3], PEM ''CERTIFICATE'' [2]]
      \<and> fst (pemDecode fixture [PEM ''CERTIFICATE'' [3], PEM ''CERTIFICATE'' [2]])
          = Some \<lparr>Type = ''CERTIFICATE'', Bytes = [3]\<rparr>
      \<and> Type \<lparr>Type = ''CERTIFICATE'', Bytes = [3]\<rparr> \<noteq> ''PRIVATE KEY''"
    by (simp add: fixture_defs)
  from k LoadPrivateKey_first_block [of fixture "''key.pem''" "Signer [13]"]
  have "LoadPrivateKey fixture ''key.pem'' = Return (Signer [13])" by blast
  moreover from c LoadPrivateKey_first_block [of fixture "''cert.pem''" "Signer [13]"
      "[PEM ''CERTIFICATE'' [3], PEM ''CERTIFICATE'' [2]]"]
  have "LoadPrivateKey fixture ''cert.pem''
       = Fail (New (''trust: load '' @ ''cert.pem'' @ '': no private key found''))" by blast
  ultimately show ?thesis by simp
qed

text \<open>
  C8 as stated fails: a key file with a private-key block, some text and a second private-key
  block decodes to the first key, although it holds two private-key blocks.
\<close>

theorem LoadPrivateKey_trailing_counterexample:
  "LoadPrivateKey fixture ''twokeys.pem'' = Return (Signer [13])
   \<and> ReadFile fixture ''twokeys.pem''
       = Inr [PEM ''PRIVATE KEY'' [13], Text ''notes'', PEM ''PRIVATE KEY'' [99]]
   \<and> pem_blocks fixture 3 [PEM ''PRIVATE KEY'' [13], Text ''notes'', PEM ''PRIVATE KEY'' [99]]
       = Some [\<lparr>Type = ''PRIVATE KEY'', Bytes = [13]\<rparr>, \<lparr>Type = ''PRIVATE KEY'', Bytes = [99]\<rparr>]"
proof (intro conjI)
  show "LoadPrivateKey fixture ''twokeys.pem'' = Return (Signer [13])"
    by (simp add: LoadPrivateKey_def fixture_defs)
  show "ReadFile fixture ''twokeys.pem''
       = Inr [PEM ''PRIVATE KEY'' [13], Text ''notes'', PEM ''PRIVATE KEY'' [99]]"
    by (simp add: fixture_defs)
  show "pem_blocks fixture 3 [PEM ''PRIVATE KEY'' [13], Text ''notes'', PEM ''PRIVATE KEY'' [99]]
       = Some [\<lparr>Type = ''PRIVATE KEY'', Bytes = [13]\<rparr>, \<lparr>Type = ''PRIVATE KEY'', Bytes = [99]\<rparr>]"
    using fixture_pem_blocks(4) by (simp add: numeral_3_eq_3)
qed

text \<open>
  C9, as amended. When the three files decode, \<open>LoadPEM\<close> returns what \<open>NewBundle\<close> returns
  on the decoded chain, signer and roots: an error of \<open>NewBundle\<close> is passed on as it is, with
  no file name added, and its message begins with the package prefix \<open>trust: \<close>.
\<close>

theorem LoadPEM_propagates:
  assumes "LoadCertificates w certFile = Some (Inr chain)"
    and "LoadPrivateKey w keyFile = Return signer"
    and "LoadCertificates w caFile = Some (Inr rts)"
  shows "LoadPEM w certFile keyFile caFile = Some (NewBundle w chain signer rts)
       \<and> (NewBundle w chain signer rts = Fail err
            \<longrightarrow> LoadPEM w certFile keyFile caFile = Some (Fail err)
                \<and> prefix ''trust: '' (Error err))"
  using assms by (auto simp: LoadPEM_def dest: NewBundle_error_prefix)

theorem LoadPEM_propagates_witness:
  "LoadPEM fixture ''cert.pem'' ''key.pem'' ''cert.pem''
     = Some (Fail (Errorf ''trust: root[0]: '' (New ''not a CA'')))
   \<and> prefix ''trust: '' ''trust: root[0]: not a CA''"
proof -
  have n: "NewBundle fixture [fixture_leaf, fixture_int] (Signer [13]) [fixture_leaf, fixture_int]
      = Fail (Errorf ''trust: root[0]: '' (New ''not a CA''))"
    by (simp add: NewBundle_def policy_defs fixture_defs itoa_digits)
  from LoadPEM_propagates [OF fixture_LoadCertificates(1) fixture_LoadPrivateKey
      fixture_LoadCertificates(1), of "Errorf ''trust: root[0]: '' (New ''not a CA'')"] n
  show ?thesis by simp
qed

text \<open>
  C9 as stated fails: with the roots file given as the chain file, validation fails at the
  leaf, and the error of \<open>LoadPEM\<close> is the one of \<open>NewBundle\<close>; no file name is in front of it.
\<close>

theorem LoadPEM_no_filename_counterexample:
  "LoadPEM fixture ''ca.pem'' ''key.pem'' ''ca.pem''
     = Some (Fail (Errorf ''trust: '' (Errorf ''chain[0]: '' (New ''is a CA''))))
   \<and> Error (Errorf ''trust: '' (Errorf ''chain[0]: '' (New ''is a CA''))) = ''trust: chain[0]: is a CA''
   \<and> \<not> prefix ''ca.pem'' ''trust: chain[0]: is a CA''
   \<and> \<not> prefix ''key.pem'' ''trust: chain[0]: is a CA''"
proof -
  have "NewBundle fixture [fixture_root] (Signer [13]) [fixture_root]
      = Fail (Errorf ''trust: '' (Errorf ''chain[0]: '' (New ''is a CA'')))"
    by (simp add: NewBundle_def verifyChain_def policy_defs fixture_defs)
  then show ?thesis
    by (simp add: LoadPEM_def fixture_LoadCertificates fixture_LoadPrivateKey)
qed

text \<open>
  C10. For a readable file whose decoding ends after finitely many blocks, none of them of
  type CERTIFICATE, \<open>LoadCertificates\<close> returns the empty list and no error (the library
  parses no bytes to no certificates). \<open>LoadPEM\<close> with such a chain file then fails with the
  empty-chain error of \<open>NewBundle\<close> whenever the key file and the roots file load, and never
  returns a bundle.
\<close>

theorem LoadCertificates_no_certificate:
  assumes "ReadFile w certFile = Inr contents"
    and "pem_blocks w n contents = Some bs"
    and "list_all (\<lambda>blk. Type blk \<noteq> ''CERTIFICATE'') bs"
    and "ParseCertificates w [] = Inr []"
  shows "LoadCertificates w certFile = Some (Inr [])
       \<and> (LoadPrivateKey w keyFile = Return signer \<and> LoadCertificates w caFile = Some (Inr rts)
            \<longrightarrow> LoadPEM w certFile keyFile caFile = Some (Fail (New ''trust: empty chain'')))
       \<and> (\<forall>b. LoadPEM w certFile keyFile caFile \<noteq> Some (Return b))"
proof -
  from assms(3) have "filter (\<lambda>blk. Type blk = ''CERTIFICATE'') bs = []"
    by (induction bs) auto
  with LoadCertificates_loop_blocks[OF assms(2), of "[]"]
  have "LoadCertificates_loop w contents [] = Some []" by simp
  with assms(1,4) have L: "LoadCertificates w certFile = Some (Inr [])"
    by (simp add: LoadCertificates_def)
  have E: "NewBundle w [] s r = Fail (New ''trust: empty chain'')" for s r
    by (simp add: NewBundle_def)
  from L E show ?thesis
    by (auto simp: LoadPEM_def split: option.splits sum.splits result.splits)
qed

theorem LoadCertificates_no_certificate_witness:
  "LoadCertificates fixture ''nocert.pem'' = Some (Inr [])
   \<and> LoadPEM fixture ''nocert.pem'' ''key.pem'' ''ca.pem'' = Some (Fail (New ''trust: empty chain''))"
proof -
  have r: "ReadFile fixture ''nocert.pem'' = Inr [Text ''notes'', PEM ''PRIVATE KEY'' [13]]"
    by (simp add: fixture_defs)
  have a: "list_all (\<lambda>blk. Type blk \<noteq> ''CERTIFICATE'') [\<lparr>Type = ''PRIVATE KEY'', Bytes = [13]\<rparr>]"
    by simp
  have e: "ParseCertificates fixture [] = Inr []"
    by (simp add: fixture_def)
  from LoadCertificates_no_certificate [OF r fixture_pem_blocks(3) a e,
      of "''key.pem''" "Signer [13]" "''ca.pem''" "[fixture_root]"]
    fixture_LoadPrivateKey fixture_LoadCertificates(2)
  show ?thesis by simp
qed

section \<open>The TLS configuration\<close>

lemma NewBundle_appendRaw_eq: "NewBundle_appendRaw certificate cs = certificate @ map Raw cs"
  by (induction cs arbitrary: certificate) auto

lemma verifyChain_returns_leaf:
  "verifyChain w chain rts = Return leaf \<Longrightarrow> chain \<noteq> [] \<and> leaf = chain ! 0"
  by (cases chain) (auto simp: verifyChain_def split: option.splits sum.splits if_splits)

lemma NewBundle_cert:
  "NewBundle w chain signer rts = Return b
   \<Longrightarrow> cert b = \<lparr>Certificate = map Raw chain, PrivateKey = signer, Leaf = chain ! 0\<rparr>"
  by (auto simp: NewBundle_def Let_def NewBundle_appendRaw_eq
      split: if_splits option.splits result.splits dest: verifyChain_returns_leaf)

text \<open>
  C6. The configuration of a bundle requires a client certificate, skips the transport's own
  verification, verifies the peer with \<open>verifyPeerCertificate\<close> of the bundle, and has TLS 1.3
  as its minimum version; both certificate callbacks return the bundle's certificate with no
  error, for every hello (whatever server name it asks for) and every certificate request.
  For a bundle that \<open>NewBundle\<close> returned, that certificate is the raw chain it was built
  from, the signer it was given and the leaf \<open>chain ! 0\<close>.
\<close>

theorem TLSConfig_policy:
  "ClientAuth (TLSConfig w b) = RequireAnyClientCert
   \<and> InsecureSkipVerify (TLSConfig w b)
   \<and> VerifyPeerCertificate (TLSConfig w b) = verifyPeerCertificate w b
   \<and> MinVersion (TLSConfig w b) = 0x0304
   \<and> GetCertificate (TLSConfig w b) hello = Return (cert b)
   \<and> GetClientCertificate (TLSConfig w b) req = Return (cert b)
   \<and> (NewBundle w chain signer rts = Return b
        \<longrightarrow> cert b = \<lparr>Certificate = map Raw chain, PrivateKey = signer, Leaf = chain ! 0\<rparr>)"
  by (simp add: TLSConfig_def getCertificate_def getClientCertificate_def VersionTLS13_def
      NewBundle_cert)

theorem TLSConfig_policy_witness:
  "GetCertificate
     (TLSConfig fixture
        \<lparr>cert = \<lparr>Certificate = [[3], [2]], PrivateKey = Signer [13], Leaf = fixture_leaf\<rparr>,
         roots = [fixture_root]\<rparr>)
     \<lparr>ServerName = ''other.example''\<rparr>
   = Return \<lparr>Certificate = map Raw [fixture_leaf, fixture_int], PrivateKey = Signer [13],
             Leaf = [fixture_leaf, fixture_int] ! 0\<rparr>"
proof -
  have good: "NewBundle fixture [fixture_leaf, fixture_int] (Signer [13]) [fixture_root]
     = Return \<lparr>cert = \<lparr>Certificate = [[3], [2]], PrivateKey = Signer [13], Leaf = fixture_leaf\<rparr>,
               roots = [fixture_root]\<rparr>"
    by (simp add: NewBundle_def verifyChain_def policy_defs fixture_defs)
  note T = TLSConfig_policy [of fixture
      "\<lparr>cert = \<lparr>Certificate = [[3], [2]], PrivateKey = Signer [13], Leaf = fixture_leaf\<rparr>,
        roots = [fixture_root]\<rparr>" "\<lparr>ServerName = ''other.example''\<rparr>" "\<lparr>AcceptableCAs = []\<rparr>"
      "[fixture_leaf, fixture_int]" "Signer [13]" "[fixture_root]"]
  from T good have c:
    "cert \<lparr>cert = \<lparr>Certificate = [[3], [2]], PrivateKey = Signer [13], Leaf = fixture_leaf\<rparr>,
           roots = [fixture_root]\<rparr>
     = \<lparr>Certificate = map Raw [fixture_leaf, fixture_int], PrivateKey = Signer [13],
        Leaf = [fixture_leaf, fixture_int] ! 0\<rparr>"
    by blast
  from T have
    "GetCertificate
       (TLSConfig fixture
          \<lparr>cert = \<lparr>Certificate = [[3], [2]], PrivateKey = Signer [13], Leaf = fixture_leaf\<rparr>,
           roots = [fixture_root]\<rparr>)
       \<lparr>ServerName = ''other.example''\<rparr>
     = Return (cert \<lparr>cert = \<lparr>Certificate = [[3], [2]], PrivateKey = Signer [13],
                               Leaf = fixture_leaf\<rparr>,
                      roots = [fixture_root]\<rparr>)"
    by blast
  then show ?thesis unfolding c .
qed

end
